theory Spec2Isabelle
  imports Main "HOL-Library.Sublist"
begin

section \<open>Text\<close>

text \<open>
  A Go string is a sequence of bytes, here a \<^typ>\<open>string\<close>. The functions of Go's
  \<^verbatim>\<open>strings\<close> package that the program calls are written out on bytes.

  White space is Unicode white space (\<^verbatim>\<open>unicode.IsSpace\<close>), which
  \<^verbatim>\<open>strings.TrimSpace\<close> and \<^verbatim>\<open>strings.Fields\<close> use: the six ASCII
  characters and the runes U+0085, U+00A0, U+1680, U+2000 to U+200A, U+2028, U+2029,
  U+202F, U+205F and U+3000, each in its UTF-8 encoding. A lead byte is never the
  continuation of another rune, so looking for these encodings in the bytes finds the
  same runes as Go's decoding does.

  Case mapping (\<^verbatim>\<open>strings.ToLower\<close>, \<^verbatim>\<open>strings.ToUpper\<close>) is by runes in Go.
  Here the ASCII letters are mapped, and so are the runes outside ASCII whose image is an
  ASCII letter: U+212A (Kelvin sign) and U+0130 lower to \<open>k\<close> and \<open>i\<close>, U+0131 and
  U+017F upper to \<open>I\<close> and \<open>S\<close>. Every other rune outside ASCII has an image outside
  ASCII in Go (an invalid byte becomes U+FFFD); here its bytes are kept, so that the
  result has a byte outside ASCII at the same place. The program only compares a mapped
  text with ASCII words (a map lookup, \<^verbatim>\<open>HasPrefix\<close>, \<^verbatim>\<open>==\<close>), and such a
  comparison is decided by the ASCII bytes before the first byte outside ASCII.
\<close>

definition unicodeSpaces :: "string list" where
  "unicodeSpaces =
     [[CHR 0x09], [CHR 0x0A], [CHR 0x0B], [CHR 0x0C], [CHR 0x0D], [CHR 0x20],
      [CHR 0xC2, CHR 0x85], [CHR 0xC2, CHR 0xA0],
      [CHR 0xE1, CHR 0x9A, CHR 0x80],
      [CHR 0xE2, CHR 0x80, CHR 0x80], [CHR 0xE2, CHR 0x80, CHR 0x81],
      [CHR 0xE2, CHR 0x80, CHR 0x82], [CHR 0xE2, CHR 0x80, CHR 0x83],
      [CHR 0xE2, CHR 0x80, CHR 0x84], [CHR 0xE2, CHR 0x80, CHR 0x85],
      [CHR 0xE2, CHR 0x80, CHR 0x86], [CHR 0xE2, CHR 0x80, CHR 0x87],
      [CHR 0xE2, CHR 0x80, CHR 0x88], [CHR 0xE2, CHR 0x80, CHR 0x89],
      [CHR 0xE2, CHR 0x80, CHR 0x8A],
      [CHR 0xE2, CHR 0x80, CHR 0xA8], [CHR 0xE2, CHR 0x80, CHR 0xA9],
      [CHR 0xE2, CHR 0x80, CHR 0xAF],
      [CHR 0xE2, CHR 0x81, CHR 0x9F],
      [CHR 0xE3, CHR 0x80, CHR 0x80]]"

text \<open>The number of bytes of the white-space rune a text starts with; 0 when it starts
  with none.\<close>

definition spaceWidth :: "string list \<Rightarrow> string \<Rightarrow> nat" where
  "spaceWidth ws s = (case find (\<lambda>w. w \<noteq> [] \<and> prefix w s) ws of None \<Rightarrow> 0 | Some w \<Rightarrow> length w)"

function TrimLeftIn :: "string list \<Rightarrow> string \<Rightarrow> string" where
  "TrimLeftIn ws s =
     (if 0 < spaceWidth ws s \<and> spaceWidth ws s \<le> length s
      then TrimLeftIn ws (drop (spaceWidth ws s) s) else s)"
  by pat_completeness auto
termination
  by (relation "measure (\<lambda>(ws, s). length s)") auto

declare TrimLeftIn.simps [simp del]

text \<open>\<^verbatim>\<open>strings.TrimSpace\<close>: white-space runes are removed from the front, then from
  the back (the encodings read backwards).\<close>

definition TrimSpace :: "string \<Rightarrow> string" where
  "TrimSpace s = rev (TrimLeftIn (map rev unicodeSpaces) (rev (TrimLeftIn unicodeSpaces s)))"

definition HasPrefix :: "string \<Rightarrow> string \<Rightarrow> bool" where
  "HasPrefix s p = prefix p s"


definition lowerByte :: "char \<Rightarrow> char" where
  "lowerByte c =
     (let n = (of_char c :: nat) in if 65 \<le> n \<and> n \<le> 90 then char_of (n + 32) else c)"

definition upperByte :: "char \<Rightarrow> char" where
  "upperByte c =
     (let n = (of_char c :: nat) in if 97 \<le> n \<and> n \<le> 122 then char_of (n - 32) else c)"

fun ToLower :: "string \<Rightarrow> string" where
  "ToLower [] = []"
| "ToLower (c # cs) =
     (if prefix [CHR 0xE2, CHR 0x84, CHR 0xAA] (c # cs) then CHR ''k'' # ToLower (drop 2 cs)
      else if prefix [CHR 0xC4, CHR 0xB0] (c # cs) then CHR ''i'' # ToLower (drop 1 cs)
      else lowerByte c # ToLower cs)"

fun ToUpper :: "string \<Rightarrow> string" where
  "ToUpper [] = []"
| "ToUpper (c # cs) =
     (if prefix [CHR 0xC4, CHR 0xB1] (c # cs) then CHR ''I'' # ToUpper (drop 1 cs)
      else if prefix [CHR 0xC5, CHR 0xBF] (c # cs) then CHR ''S'' # ToUpper (drop 1 cs)
      else upperByte c # ToUpper cs)"



text \<open>\<^verbatim>\<open>strings.Split(s, "\n")\<close>: the pieces between the newlines, one more than there
  are newlines.\<close>

fun SplitLines :: "string \<Rightarrow> string list" where
  "SplitLines [] = [[]]"
| "SplitLines (c # cs) =
     (if c = CHR 0x0A then [] # SplitLines cs
      else (case SplitLines cs of l # ls \<Rightarrow> (c # l) # ls | [] \<Rightarrow> [[c]]))"

text \<open>\<^verbatim>\<open>strings.Fields\<close>: the maximal runs of bytes that hold no white-space rune.\<close>

function FieldsFrom :: "string \<Rightarrow> string \<Rightarrow> string list" where
  "FieldsFrom cur [] = (if cur = [] then [] else [cur])"
| "FieldsFrom cur (c # cs) =
     (if 0 < spaceWidth unicodeSpaces (c # cs)
      then (if cur = [] then [] else [cur]) @ FieldsFrom [] (drop (spaceWidth unicodeSpaces (c # cs)) (c # cs))
      else FieldsFrom (cur @ [c]) cs)"
  by pat_completeness auto
termination
  by (relation "measure (\<lambda>(cur, s). length s)") auto

declare FieldsFrom.simps [simp del]

definition Fields :: "string \<Rightarrow> string list" where
  "Fields s = FieldsFrom [] s"

section \<open>Integers\<close>

text \<open>
  Line numbers and counters are values of Go's type \<^verbatim>\<open>int\<close>, which has 64 bits on the
  platforms the program is released for: they are integers from \<open>- 2 ^ 63\<close> to
  \<open>2 ^ 63 - 1\<close>, and addition wraps around. \<open>go_int x\<close> is the value of that type which
  equals \<open>x\<close> modulo \<open>2 ^ 64\<close>.
\<close>

definition go_int :: "int \<Rightarrow> int" where
  "go_int x = (x + 2 ^ 63) mod 2 ^ 64 - 2 ^ 63"

section \<open>Extraction of the mermaid blocks of a Markdown document\<close>




text \<open>
  \<^verbatim>\<open>ExtractMermaidBlocks\<close> reads its \<^verbatim>\<open>io.Reader\<close> through a \<^verbatim>\<open>bufio.Scanner\<close>
  with the default split function \<^verbatim>\<open>ScanLines\<close> and the default buffer. A reader is
  the bytes it delivers and the error that ends them, if it is not the end of the input.

  The scanner delivers the lines: the bytes between the newlines, without a carriage
  return at the end; an empty rest after the last newline is no line. Its buffer holds at
  most \<^verbatim>\<open>MaxScanTokenSize\<close> bytes, a line together with its newline: at a line of that
  many bytes or more the scanner stops with \<^verbatim>\<open>ErrTooLong\<close>, having delivered the lines
  before it. (A last line of exactly that many bytes and no newline is delivered when the
  reader reports the end of the input together with its last bytes; \<^verbatim>\<open>strings.Reader\<close>
  and \<^verbatim>\<open>os.File\<close> report it by a read of its own, and the scanner stops.) Otherwise
  the scanner's error is that of the reader.
\<close>

datatype error = ErrTooLong | ReadError string











section \<open>The two patterns and their matching\<close>

text \<open>
  The parser matches each line against two regular expressions of Go's \<^verbatim>\<open>regexp\<close>
  package. Its matching is leftmost-first: of the matches that start at the leftmost
  possible position, it returns the one a backtracking matcher finds first, with greedy
  repetition and options and with the alternatives tried from left to right.

  A pattern is a value of type \<open>regex\<close>, with the constructs the two patterns use. A
  thread of the matcher is the position in the text, the text from there on, and the
  captured groups (a group that has not matched holds the empty string, which is what
  \<^verbatim>\<open>FindAllStringSubmatch\<close> returns for it). \<open>run\<close> lists the threads that are left
  when a pattern has matched, in the order of preference.

  Go matches rune by rune, with an invalid byte read as a rune of one byte. The classes
  of the two patterns are sets of ASCII characters or the complement of one ASCII
  character, and each complement is followed in its pattern by an ASCII character: for
  them matching byte by byte finds the same matches. The any-character \<^verbatim>\<open>.\<close> takes a
  whole rune: \<open>runeWidth\<close> is the number of bytes of the rune a text starts with, as
  \<^verbatim>\<open>utf8.DecodeRuneInString\<close> finds it.
\<close>

definition runeWidth :: "string \<Rightarrow> nat" where
  "runeWidth s =
     (let cont = (\<lambda>b :: nat. 0x80 \<le> b \<and> b \<le> 0xBF) in
      case map of_char (take 4 s) of
        [] \<Rightarrow> 0
      | b0 # bs \<Rightarrow>
          if b0 < 0x80 then 1
          else if 0xC2 \<le> b0 \<and> b0 \<le> 0xDF then
            (case bs of b1 # bs1 \<Rightarrow> if cont b1 then 2 else 1 | [] \<Rightarrow> 1)
          else if 0xE0 \<le> b0 \<and> b0 \<le> 0xEF then
            (case bs of
               b1 # b2 # bs2 \<Rightarrow>
                 if (if b0 = 0xE0 then 0xA0 else 0x80) \<le> b1 \<and>
                    b1 \<le> (if b0 = 0xED then 0x9F else 0xBF) \<and> cont b2
                 then 3 else 1
             | _ \<Rightarrow> 1)
          else if 0xF0 \<le> b0 \<and> b0 \<le> 0xF4 then
            (case bs of
               b1 # b2 # b3 # bs3 \<Rightarrow>
                 if (if b0 = 0xF0 then 0x90 else 0x80) \<le> b1 \<and>
                    b1 \<le> (if b0 = 0xF4 then 0x8F else 0xBF) \<and> cont b2 \<and> cont b3
                 then 4 else 1
             | _ \<Rightarrow> 1)
          else 1)"


datatype regex =
    Eps
  | Lit char
  | Class "char \<Rightarrow> bool"
  | AnyCharNotNL
  | Bol
  | Cat regex regex
  | Alt regex regex
  | StarC "char \<Rightarrow> bool"
  | Quest regex
  | Group nat regex

type_synonym thread = "nat \<times> string \<times> (nat \<Rightarrow> string)"

fun starC :: "(char \<Rightarrow> bool) \<Rightarrow> nat \<Rightarrow> string \<Rightarrow> (nat \<times> string) list" where
  "starC f p [] = [(p, [])]"
| "starC f p (c # cs) = (if f c then starC f (Suc p) cs @ [(p, c # cs)] else [(p, c # cs)])"

fun run :: "regex \<Rightarrow> thread \<Rightarrow> thread list" where
  "run Eps t = [t]"
| "run (Lit c) (p, r, k) =
     (case r of [] \<Rightarrow> [] | x # xs \<Rightarrow> if x = c then [(Suc p, xs, k)] else [])"
| "run (Class f) (p, r, k) =
     (case r of [] \<Rightarrow> [] | x # xs \<Rightarrow> if f x then [(Suc p, xs, k)] else [])"
| "run AnyCharNotNL (p, r, k) =
     (case r of
        [] \<Rightarrow> []
      | x # xs \<Rightarrow> if x = CHR 0x0A then [] else [(p + runeWidth r, drop (runeWidth r) r, k)])"
| "run Bol (p, r, k) = (if p = 0 then [(p, r, k)] else [])"
| "run (Cat a b) t = concat (map (run b) (run a t))"
| "run (Alt a b) t = run a t @ run b t"
| "run (StarC f) (p, r, k) = map (\<lambda>(p', r'). (p', r', k)) (starC f p r)"
| "run (Quest a) t = run a t @ [t]"
| "run (Group i a) (p, r, k) =
     map (\<lambda>(p', r', k'). (p', r', k'(i := take (p' - p) r))) (run a (p, r, k))"

text \<open>The leftmost match at or after a position: the start of the match and the first
  thread of the pattern there.\<close>

fun search :: "regex \<Rightarrow> nat \<Rightarrow> string \<Rightarrow> (nat \<times> thread) option" where
  "search re p [] =
     (case run re (p, [], \<lambda>i. []) of t # ts \<Rightarrow> Some (p, t) | [] \<Rightarrow> None)"
| "search re p (c # cs) =
     (case run re (p, c # cs, \<lambda>i. []) of t # ts \<Rightarrow> Some (p, t) | [] \<Rightarrow> search re (Suc p) cs)"

text \<open>
  \<^verbatim>\<open>FindAllStringSubmatch(s, -1)\<close>: the successive matches, each searched from the end of
  the one before. A match is the list of the matched text and the \<open>n\<close> groups. As in Go,
  after an empty match the search moves on by one rune, and an empty match right at the
  end of the match before is not delivered. \<open>prev\<close> is the end of the match before.
\<close>

function FindAllFrom :: "regex \<Rightarrow> nat \<Rightarrow> nat \<Rightarrow> nat option \<Rightarrow> string \<Rightarrow> string list list" where
  "FindAllFrom re n pos prev r =
     (case search re pos r of
        None \<Rightarrow> []
      | Some (b, e, r', k) \<Rightarrow>
          let m = take (e - b) (drop (b - pos) r) # map k [1..<Suc n] in
          if length r' < length r then m # FindAllFrom re n e (Some e) r'
          else (if Some b = prev then [] else [m]) @
               (case r of
                  [] \<Rightarrow> []
                | c # cs \<Rightarrow>
                    FindAllFrom re n (pos + runeWidth r) (Some e) (drop (runeWidth r - 1) cs)))"
  by pat_completeness auto
termination
  by (relation "measure (\<lambda>(re, n, pos, prev, r). length r)") auto

declare FindAllFrom.simps [simp del]

definition FindAllStringSubmatch :: "regex \<Rightarrow> nat \<Rightarrow> string \<Rightarrow> string list list" where
  "FindAllStringSubmatch re n s = FindAllFrom re n 0 None s"

fun seq :: "regex list \<Rightarrow> regex" where
  "seq [] = Eps"
| "seq [a] = a"
| "seq (a # b # rs) = Cat a (seq (b # rs))"

fun alts :: "regex list \<Rightarrow> regex" where
  "alts [] = Eps"
| "alts [a] = a"
| "alts (a # b # rs) = Alt a (alts (b # rs))"

definition lits :: "string \<Rightarrow> regex" where
  "lits s = seq (map Lit s)"

text \<open>The character classes: \<^verbatim>\<open>[A-Za-z_]\<close>, \<^verbatim>\<open>[A-Za-z0-9_]\<close> and Go's \<^verbatim>\<open>\s\<close> (tab,
  newline, form feed, carriage return, space).\<close>

definition idStart :: "char \<Rightarrow> bool" where
  "idStart c =
     (let n = (of_char c :: nat) in (65 \<le> n \<and> n \<le> 90) \<or> (97 \<le> n \<and> n \<le> 122) \<or> n = 95)"

definition idChar :: "char \<Rightarrow> bool" where
  "idChar c = (let n = (of_char c :: nat) in idStart c \<or> (48 \<le> n \<and> n \<le> 57))"

definition reSpace :: "char \<Rightarrow> bool" where
  "reSpace c = (c \<in> set [CHR 0x09, CHR 0x0A, CHR 0x0C, CHR 0x0D, CHR 0x20])"

definition ident :: regex where
  "ident = Cat (Class idStart) (StarC idChar)"

definition bracketed :: "string \<Rightarrow> nat \<Rightarrow> char \<Rightarrow> string \<Rightarrow> regex" where
  "bracketed open i stop close = seq [lits open, Group i (StarC (\<lambda>c. c \<noteq> stop)), lits close]"

text \<open>
  \<^verbatim>\<open>nodeDefPattern\<close>, in the order of the source: the start of the line or a
  character of \<^verbatim>\<open>[\s;]\<close>, the identifier (group 1), and optionally one of ten bracketed
  labels (groups 2 to 11).
\<close>

definition nodeDefPattern :: regex where
  "nodeDefPattern =
     seq [Alt Bol (Class (\<lambda>c. reSpace c \<or> c = CHR '';'')),
          Group 1 ident,
          Quest (alts
            [bracketed ''['' 2 (CHR '']'') '']'',
             bracketed ''('' 3 (CHR '')'') '')'',
             bracketed ''{'' 4 (CHR ''}'') ''}'',
             bracketed ''[['' 5 (CHR '']'') '']]'',
             bracketed ''[('' 6 (CHR '')'') '')]'',
             bracketed ''(['' 7 (CHR '']'') ''])'',
             bracketed ''(('' 8 (CHR '')'') ''))'',
             bracketed ''>'' 9 (CHR '']'') '']'',
             bracketed ''[/'' 10 (CHR '']'') ''/]'',
             bracketed [CHR ''['', CHR 0x5C] 11 (CHR '']'') [CHR 0x5C, CHR '']'']])]"

text \<open>
  \<^verbatim>\<open>edgePattern\<close>: an identifier (group 1), white space, one of the arrows (group 2; the
  dot of \<^verbatim>\<open>-.->\<close> and \<^verbatim>\<open>-.-\<close> is the pattern's any-character, one rune), white space,
  optionally a label between bars (group 3) and white space, and an identifier
  (group 4).
\<close>

definition arrow :: regex where
  "arrow =
     alts [lits ''-->'', lits ''---'',
           seq [Lit (CHR ''-''), AnyCharNotNL, Lit (CHR ''-''), Lit (CHR ''>'')],
           seq [Lit (CHR ''-''), AnyCharNotNL, Lit (CHR ''-'')],
           lits ''==>'', lits ''==='',
           seq [Lit (CHR ''-''), Lit (CHR ''-''), Class (\<lambda>c. c = CHR ''>'' \<or> c = CHR ''x'')],
           lits ''~~>'', lits ''~~'']"

definition edgePattern :: regex where
  "edgePattern =
     seq [Group 1 ident,
          StarC reSpace,
          Group 2 arrow,
          StarC reSpace,
          Quest (seq [Lit (CHR ''|''), Group 3 (StarC (\<lambda>c. c \<noteq> CHR ''|'')), Lit (CHR ''|''), StarC reSpace]),
          Group 4 ident]"

section \<open>The parser\<close>

text \<open>\<^verbatim>\<open>DiagramType\<close> is a string type; its constants are the strings of the source.
  The type of a diagram with no declaration line is the empty string.\<close>

type_synonym DiagramType = string

definition DiagramFlowchart :: DiagramType where "DiagramFlowchart = ''flowchart''"
definition DiagramGraph :: DiagramType where "DiagramGraph = ''graph''"
definition DiagramUnknown :: DiagramType where "DiagramUnknown = ''unknown''"

definition KnownDiagramTypes :: "(string \<times> DiagramType) list" where
  "KnownDiagramTypes =
     [(''flowchart'', DiagramFlowchart),
      (''graph'', DiagramGraph),
      (''sequencediagram'', ''sequenceDiagram''),
      (''classdiagram'', ''classDiagram''),
      (''statediagram'', ''stateDiagram''),
      (''statediagram-v2'', ''stateDiagram-v2''),
      (''erdiagram'', ''erDiagram''),
      (''gantt'', ''gantt''),
      (''pie'', ''pie''),
      (''gitgraph'', ''gitGraph''),
      (''mindmap'', ''mindmap''),
      (''timeline'', ''timeline''),
      (''quadrantchart'', ''quadrantChart''),
      (''requirementdiagram'', ''requirementDiagram''),
      (''c4context'', ''C4Context''),
      (''c4container'', ''C4Container''),
      (''c4component'', ''C4Component''),
      (''c4dynamic'', ''C4Dynamic''),
      (''c4deployment'', ''C4Deployment''),
      (''sankey-beta'', ''sankey-beta''),
      (''block-beta'', ''block-beta''),
      (''xychart-beta'', ''xychart-beta'')]"

definition ValidFlowchartDirections :: "string \<Rightarrow> bool" where
  "ValidFlowchartDirections dir = (dir \<in> set [''TB'', ''TD'', ''BT'', ''LR'', ''RL''])"

record Node =
  Node_ID :: string
  Node_Label :: string
  Node_Line :: int
  Node_Shape :: string

record Edge =
  Edge_From :: string
  Edge_To :: string
  Edge_Label :: string
  Edge_Line :: int
  Edge_Style :: string

record Diagram =
  Diagram_Type :: DiagramType
  Diagram_TypeRaw :: string
  Diagram_Direction :: string
  Diagram_Nodes :: "Node list"
  Diagram_Edges :: "Edge list"
  Diagram_Lines :: "string list"
  Diagram_StartLine :: int

definition isFlow :: "Diagram \<Rightarrow> bool" where
  "isFlow d = (Diagram_Type d = DiagramFlowchart \<or> Diagram_Type d = DiagramGraph)"

text \<open>\<^verbatim>\<open>parseType\<close>: the first line that is neither blank nor a comment gives the raw
  type, the type and, for a flowchart or graph with a second word, the direction.\<close>

fun parseType :: "Diagram \<Rightarrow> string list \<Rightarrow> Diagram" where
  "parseType d [] = d"
| "parseType d (line # rest) =
     (let trimmed = TrimSpace line in
      if trimmed = [] \<or> HasPrefix trimmed ''%%'' then parseType d rest
      else
        let parts = Fields trimmed in
        (case parts of
           [] \<Rightarrow> parseType d rest
         | keyword # tail \<Rightarrow>
             let d1 = d\<lparr>Diagram_TypeRaw := keyword\<rparr>;
                 normalized = ToLower keyword;
                 d2 = (case map_of KnownDiagramTypes normalized of
                         Some dt \<Rightarrow> d1\<lparr>Diagram_Type := dt\<rparr>
                       | None \<Rightarrow> d1\<lparr>Diagram_Type := DiagramUnknown\<rparr>)
             in if isFlow d2 \<and> length parts > 1
                then d2\<lparr>Diagram_Direction := parts ! 1\<rparr> else d2))"

definition isDeclarationLine :: "string \<Rightarrow> bool" where
  "isDeclarationLine line =
     (let lower = ToLower (TrimSpace line) in
      list_ex (\<lambda>keyword. HasPrefix lower keyword) (map fst KnownDiagramTypes))"

text \<open>The state of \<^verbatim>\<open>parseFlowchart\<close>: the diagram under construction and the map
  \<^verbatim>\<open>seenNodes\<close> (a missing key reads as false).\<close>

type_synonym flow_state = "Diagram \<times> (string \<Rightarrow> bool)"

text \<open>Registering an endpoint of an edge: a node with no label and no shape, unless the
  id has been seen.\<close>

definition register_endpoint :: "int \<Rightarrow> string \<Rightarrow> flow_state \<Rightarrow> flow_state" where
  "register_endpoint lineNum nid st =
     (case st of (d, seenNodes) \<Rightarrow>
        if \<not> seenNodes nid
        then (d\<lparr>Diagram_Nodes := Diagram_Nodes d @
                   [\<lparr>Node_ID = nid, Node_Label = [], Node_Line = lineNum, Node_Shape = []\<rparr>]\<rparr>,
              seenNodes(nid := True))
        else (d, seenNodes))"

text \<open>The body of the loop over the edge matches of a line.\<close>

definition edge_step :: "int \<Rightarrow> flow_state \<Rightarrow> string list \<Rightarrow> flow_state" where
  "edge_step lineNum st match =
     (case st of (d, seenNodes) \<Rightarrow>
        let fromID = match ! 1;
            style = match ! 2;
            label = match ! 3;
            toID = match ! 4;
            d1 = d\<lparr>Diagram_Edges := Diagram_Edges d @
                     [\<lparr>Edge_From = fromID, Edge_To = toID, Edge_Label = label,
                       Edge_Line = lineNum, Edge_Style = style\<rparr>]\<rparr>
        in register_endpoint lineNum toID (register_endpoint lineNum fromID (d1, seenNodes)))"

text \<open>The shape of capture group \<open>j\<close> (the \<^verbatim>\<open>switch\<close>), and the loop over the groups
  from 2 on: the first group that is not empty gives the label and the shape.\<close>

definition shape_of_group :: "nat \<Rightarrow> string" where
  "shape_of_group j =
     (if j = 2 then ''rect''
      else if j = 3 then ''round''
      else if j = 4 then ''rhombus''
      else if j = 5 then ''subroutine''
      else if j = 6 then ''cylinder''
      else if j = 7 then ''stadium''
      else if j = 8 then ''circle''
      else if j = 9 then ''asymmetric''
      else if j = 10 then ''parallelogram''
      else if j = 11 then ''parallelogram-alt''
      else ''default'')"

fun label_shape :: "nat \<Rightarrow> string list \<Rightarrow> string \<times> string" where
  "label_shape j [] = ([], ''default'')"
| "label_shape j (g # gs) = (if g \<noteq> [] then (g, shape_of_group j) else label_shape (Suc j) gs)"

text \<open>The loop that updates an existing node: the first node with this id and an empty
  label gets the label and the shape.\<close>

fun update_node :: "string \<Rightarrow> string \<Rightarrow> string \<Rightarrow> Node list \<Rightarrow> Node list" where
  "update_node nid label shape [] = []"
| "update_node nid label shape (n # ns) =
     (if Node_ID n = nid \<and> Node_Label n = []
      then n\<lparr>Node_Label := label, Node_Shape := shape\<rparr> # ns
      else n # update_node nid label shape ns)"

text \<open>What the loop over the definition matches does with one definition, once its
  label and shape are known.\<close>

definition define_node :: "int \<Rightarrow> string \<Rightarrow> string \<Rightarrow> string \<Rightarrow> flow_state \<Rightarrow> flow_state" where
  "define_node lineNum nid label shape st =
     (case st of (d, seenNodes) \<Rightarrow>
        if \<not> seenNodes nid
        then (d\<lparr>Diagram_Nodes := Diagram_Nodes d @
                   [\<lparr>Node_ID = nid, Node_Label = label, Node_Line = lineNum, Node_Shape = shape\<rparr>]\<rparr>,
              seenNodes(nid := True))
        else if label \<noteq> []
        then (d\<lparr>Diagram_Nodes := update_node nid label shape (Diagram_Nodes d)\<rparr>, seenNodes)
        else (d, seenNodes))"

text \<open>The body of the loop over the definition matches of a line.\<close>

definition node_step :: "int \<Rightarrow> flow_state \<Rightarrow> string list \<Rightarrow> flow_state" where
  "node_step lineNum st match =
     (let nid = match ! 1 in
      if nid = [] then st
      else (case label_shape 2 (drop 2 match) of
              (label, shape) \<Rightarrow> define_node lineNum nid label shape st))"

definition isDirective :: "string \<Rightarrow> bool" where
  "isDirective lower =
     (HasPrefix lower ''subgraph'' \<or>
      lower = ''end'' \<or>
      HasPrefix lower ''style '' \<or>
      HasPrefix lower ''classDef '' \<or>
      HasPrefix lower ''classdef '' \<or>
      HasPrefix lower ''click '' \<or>
      HasPrefix lower ''linkstyle '')"

text \<open>The body of the loop over the lines; \<open>i\<close> is the 0-based index of the line, and
  the line number is the sum \<^verbatim>\<open>d.StartLine + i\<close> of two values of Go's \<^verbatim>\<open>int\<close>.\<close>

definition line_step :: "nat \<Rightarrow> string \<Rightarrow> flow_state \<Rightarrow> flow_state" where
  "line_step i line st =
     (let trimmed = TrimSpace line in
      if trimmed = [] \<or> HasPrefix trimmed ''%%'' then st
      else if i = 0 \<or> isDeclarationLine trimmed then st
      else if isDirective (ToLower trimmed) then st
      else
        let lineNum = go_int (Diagram_StartLine (fst st) + int i);
            st1 = foldl (edge_step lineNum) st (FindAllStringSubmatch edgePattern 4 trimmed)
        in foldl (node_step lineNum) st1 (FindAllStringSubmatch nodeDefPattern 11 trimmed))"

fun flow_loop :: "nat \<Rightarrow> string list \<Rightarrow> flow_state \<Rightarrow> flow_state" where
  "flow_loop i [] st = st"
| "flow_loop i (line # rest) st = flow_loop (Suc i) rest (line_step i line st)"

definition parseFlowchart :: "Diagram \<Rightarrow> string list \<Rightarrow> Diagram" where
  "parseFlowchart d lines = fst (flow_loop 0 lines (d, \<lambda>nid. False))"

definition Parse :: "string \<Rightarrow> int \<Rightarrow> Diagram" where
  "Parse source startLine =
     (let lines = SplitLines source;
          d = \<lparr>Diagram_Type = [], Diagram_TypeRaw = [], Diagram_Direction = [],
               Diagram_Nodes = [], Diagram_Edges = [], Diagram_Lines = lines,
               Diagram_StartLine = startLine\<rparr>;
          d1 = parseType d lines
      in if isFlow d1 then parseFlowchart d1 lines else d1)"

section \<open>The configuration\<close>

type_synonym Severity = string

definition SeverityError :: Severity where "SeverityError = ''error''"
definition SeverityWarning :: Severity where "SeverityWarning = ''warning''"
definition SeverityInfo :: Severity where "SeverityInfo = ''info''"

record RuleConfig =
  RuleConfig_Enabled :: bool
  RuleConfig_Severity :: Severity

record Config =
  Config_Rules :: "string \<rightharpoonup> RuleConfig"

definition DefaultConfig :: Config where
  "DefaultConfig =
     \<lparr>Config_Rules = map_of
        [(''no-unknown-diagram-type'', \<lparr>RuleConfig_Enabled = True, RuleConfig_Severity = SeverityError\<rparr>),
         (''no-empty-diagram'', \<lparr>RuleConfig_Enabled = True, RuleConfig_Severity = SeverityWarning\<rparr>),
         (''valid-direction'', \<lparr>RuleConfig_Enabled = True, RuleConfig_Severity = SeverityError\<rparr>),
         (''no-duplicate-node-ids'', \<lparr>RuleConfig_Enabled = True, RuleConfig_Severity = SeverityWarning\<rparr>),
         (''node-has-label'', \<lparr>RuleConfig_Enabled = True, RuleConfig_Severity = SeverityInfo\<rparr>),
         (''no-orphan-nodes'', \<lparr>RuleConfig_Enabled = True, RuleConfig_Severity = SeverityWarning\<rparr>)]\<rparr>"

definition IsRuleEnabled :: "Config \<Rightarrow> string \<Rightarrow> bool" where
  "IsRuleEnabled c name =
     (case Config_Rules c name of None \<Rightarrow> False | Some rule \<Rightarrow> RuleConfig_Enabled rule)"

definition RuleSeverity :: "Config \<Rightarrow> string \<Rightarrow> Severity" where
  "RuleSeverity c name =
     (case Config_Rules c name of None \<Rightarrow> SeverityWarning | Some rule \<Rightarrow> RuleConfig_Severity rule)"

section \<open>The rules and the linter\<close>

text \<open>
  A message is a string or a call of \<^verbatim>\<open>fmt.Sprintf\<close>, kept as the format and its
  operands: \<open>Quoted\<close> is the operand of a \<^verbatim>\<open>%q\<close>, \<open>Decimal\<close> that of a \<^verbatim>\<open>%d\<close>.
\<close>

datatype fmt_operand = Quoted string | Decimal int

datatype message = Plain string | Sprintf string "fmt_operand list"

record Finding =
  Finding_Rule :: string
  Finding_Severity :: Severity
  Finding_Message :: message
  Finding_File :: string
  Finding_Line :: int

text \<open>A finding as a rule makes it: the severity and the file are Go's zero values.\<close>

definition new_finding :: "string \<Rightarrow> message \<Rightarrow> int \<Rightarrow> Finding" where
  "new_finding rule msg line =
     \<lparr>Finding_Rule = rule, Finding_Severity = [], Finding_Message = msg,
      Finding_File = [], Finding_Line = line\<rparr>"

text \<open>The six implementations of the interface \<^verbatim>\<open>Rule\<close>.\<close>

datatype Rule =
    NoUnknownDiagramType
  | NoEmptyDiagram
  | ValidDirection
  | NoDuplicateNodeIDs
  | NodeHasLabel
  | NoOrphanNodes

fun Name :: "Rule \<Rightarrow> string" where
  "Name NoUnknownDiagramType = ''no-unknown-diagram-type''"
| "Name NoEmptyDiagram = ''no-empty-diagram''"
| "Name ValidDirection = ''valid-direction''"
| "Name NoDuplicateNodeIDs = ''no-duplicate-node-ids''"
| "Name NodeHasLabel = ''node-has-label''"
| "Name NoOrphanNodes = ''no-orphan-nodes''"

definition AllRules :: "Rule list" where
  "AllRules =
     [NoUnknownDiagramType, NoEmptyDiagram, ValidDirection, NoDuplicateNodeIDs,
      NodeHasLabel, NoOrphanNodes]"

definition NoUnknownDiagramType_Check :: "Diagram \<Rightarrow> Finding list" where
  "NoUnknownDiagramType_Check d =
     (if Diagram_Type d = DiagramUnknown \<and> Diagram_TypeRaw d \<noteq> []
      then [new_finding (Name NoUnknownDiagramType)
              (Sprintf ''unknown diagram type %q'' [Quoted (Diagram_TypeRaw d)])
              (Diagram_StartLine d)]
      else if Diagram_TypeRaw d = []
      then [new_finding (Name NoUnknownDiagramType)
              (Plain ''no diagram type declaration found'') (Diagram_StartLine d)]
      else [])"

definition NoEmptyDiagram_Check :: "Diagram \<Rightarrow> Finding list" where
  "NoEmptyDiagram_Check d =
     (if \<not> isFlow d then []
      else if length (Diagram_Nodes d) = 0 \<and> length (Diagram_Edges d) = 0
      then [new_finding (Name NoEmptyDiagram)
              (Plain ''diagram has no nodes or edges'') (Diagram_StartLine d)]
      else [])"

definition ValidDirection_Check :: "Diagram \<Rightarrow> Finding list" where
  "ValidDirection_Check d =
     (if \<not> isFlow d then []
      else if Diagram_Direction d = [] then []
      else let dir = ToUpper (Diagram_Direction d) in
        if \<not> ValidFlowchartDirections dir
        then [new_finding (Name ValidDirection)
                (Sprintf ''invalid flowchart direction %q; must be one of TB, TD, BT, LR, RL''
                   [Quoted (Diagram_Direction d)])
                (Diagram_StartLine d)]
        else [])"

text \<open>The loop of \<^verbatim>\<open>NoDuplicateNodeIDs.Check\<close>: \<open>seen\<close> maps an id to the line of the
  first node that had it.\<close>

fun duplicate_loop :: "(string \<rightharpoonup> int) \<Rightarrow> Finding list \<Rightarrow> Node list \<Rightarrow> Finding list" where
  "duplicate_loop seen findings [] = findings"
| "duplicate_loop seen findings (node # rest) =
     (case seen (Node_ID node) of
        Some firstLine \<Rightarrow>
          duplicate_loop seen
            (findings @
               [new_finding (Name NoDuplicateNodeIDs)
                  (Sprintf ''duplicate node ID %q (first defined at line %d)''
                     [Quoted (Node_ID node), Decimal firstLine])
                  (Node_Line node)])
            rest
      | None \<Rightarrow> duplicate_loop (seen(Node_ID node \<mapsto> Node_Line node)) findings rest)"

definition NoDuplicateNodeIDs_Check :: "Diagram \<Rightarrow> Finding list" where
  "NoDuplicateNodeIDs_Check d =
     (if \<not> isFlow d then [] else duplicate_loop Map.empty [] (Diagram_Nodes d))"

fun label_loop :: "Finding list \<Rightarrow> Node list \<Rightarrow> Finding list" where
  "label_loop findings [] = findings"
| "label_loop findings (node # rest) =
     (if Node_Label node = []
      then label_loop
             (findings @
                [new_finding (Name NodeHasLabel)
                   (Sprintf ''node %q has no label'' [Quoted (Node_ID node)])
                   (Node_Line node)])
             rest
      else label_loop findings rest)"

definition NodeHasLabel_Check :: "Diagram \<Rightarrow> Finding list" where
  "NodeHasLabel_Check d = (if \<not> isFlow d then [] else label_loop [] (Diagram_Nodes d))"

text \<open>\<^verbatim>\<open>NoOrphanNodes.Check\<close>: the map \<^verbatim>\<open>connected\<close> is filled from the edges, then
  the nodes are examined.\<close>

fun connected_loop :: "(string \<Rightarrow> bool) \<Rightarrow> Edge list \<Rightarrow> (string \<Rightarrow> bool)" where
  "connected_loop connected [] = connected"
| "connected_loop connected (edge # rest) =
     connected_loop ((connected(Edge_From edge := True))(Edge_To edge := True)) rest"

fun orphan_loop :: "(string \<Rightarrow> bool) \<Rightarrow> Finding list \<Rightarrow> Node list \<Rightarrow> Finding list" where
  "orphan_loop connected findings [] = findings"
| "orphan_loop connected findings (node # rest) =
     (if \<not> connected (Node_ID node)
      then orphan_loop connected
             (findings @
                [new_finding (Name NoOrphanNodes)
                   (Sprintf ''node %q is not connected to any edge'' [Quoted (Node_ID node)])
                   (Node_Line node)])
             rest
      else orphan_loop connected findings rest)"

definition NoOrphanNodes_Check :: "Diagram \<Rightarrow> Finding list" where
  "NoOrphanNodes_Check d =
     (if \<not> isFlow d then []
      else if length (Diagram_Edges d) = 0 then []
      else orphan_loop (connected_loop (\<lambda>nid. False) (Diagram_Edges d)) [] (Diagram_Nodes d))"

fun Check :: "Rule \<Rightarrow> Diagram \<Rightarrow> Finding list" where
  "Check NoUnknownDiagramType d = NoUnknownDiagramType_Check d"
| "Check NoEmptyDiagram d = NoEmptyDiagram_Check d"
| "Check ValidDirection d = ValidDirection_Check d"
| "Check NoDuplicateNodeIDs d = NoDuplicateNodeIDs_Check d"
| "Check NodeHasLabel d = NodeHasLabel_Check d"
| "Check NoOrphanNodes d = NoOrphanNodes_Check d"

record Linter =
  Linter_Config :: Config
  Linter_Rules :: "Rule list"

definition New :: "Config \<Rightarrow> Linter" where
  "New cfg = \<lparr>Linter_Config = cfg, Linter_Rules = AllRules\<rparr>"

text \<open>\<^verbatim>\<open>lintDiagram\<close>: the inner loop stamps the findings of one rule and appends them,
  the outer loop goes through the rules.\<close>

fun stamp_loop :: "string \<Rightarrow> Severity \<Rightarrow> Finding list \<Rightarrow> Finding list \<Rightarrow> Finding list" where
  "stamp_loop filename severity findings [] = findings"
| "stamp_loop filename severity findings (f # fs) =
     stamp_loop filename severity
       (findings @ [f\<lparr>Finding_File := filename, Finding_Severity := severity\<rparr>]) fs"

fun rules_loop :: "Config \<Rightarrow> Diagram \<Rightarrow> string \<Rightarrow> Finding list \<Rightarrow> Rule list \<Rightarrow> Finding list" where
  "rules_loop cfg d filename findings [] = findings"
| "rules_loop cfg d filename findings (rule # rest) =
     (if \<not> IsRuleEnabled cfg (Name rule) then rules_loop cfg d filename findings rest
      else rules_loop cfg d filename
             (stamp_loop filename (RuleSeverity cfg (Name rule)) findings (Check rule d)) rest)"

definition lintDiagram :: "Linter \<Rightarrow> Diagram \<Rightarrow> string \<Rightarrow> Finding list" where
  "lintDiagram l d filename = rules_loop (Linter_Config l) d filename [] (Linter_Rules l)"

definition LintSource :: "Linter \<Rightarrow> string \<Rightarrow> string \<Rightarrow> Finding list" where
  "LintSource l source filename = lintDiagram l (Parse source 1) filename"

section \<open>Notions used in the properties\<close>

text \<open>The invariant of the loops of \<^verbatim>\<open>parseFlowchart\<close>: the ids of the nodes are
  distinct, and \<^verbatim>\<open>seenNodes\<close> holds exactly these ids.\<close>

definition registered_once :: "flow_state \<Rightarrow> bool" where
  "registered_once st =
     (case st of (d, seenNodes) \<Rightarrow>
        distinct (map Node_ID (Diagram_Nodes d)) \<and>
        (\<forall>nid. seenNodes nid = (nid \<in> set (map Node_ID (Diagram_Nodes d)))))"

text \<open>The finding of \<open>node-has-label\<close> for a node, and that of \<open>no-orphan-nodes\<close>.\<close>

definition no_label_finding :: "Node \<Rightarrow> Finding" where
  "no_label_finding node =
     new_finding ''node-has-label'' (Sprintf ''node %q has no label'' [Quoted (Node_ID node)])
       (Node_Line node)"

definition orphan_finding :: "Node \<Rightarrow> Finding" where
  "orphan_finding node =
     new_finding ''no-orphan-nodes''
       (Sprintf ''node %q is not connected to any edge'' [Quoted (Node_ID node)])
       (Node_Line node)"


text \<open>The finding of \<open>no-duplicate-node-ids\<close> for a node whose id was first seen on a
  node at line \<open>firstLine\<close>.\<close>

definition duplicate_finding :: "Node \<Rightarrow> int \<Rightarrow> Finding" where
  "duplicate_finding node firstLine =
     new_finding ''no-duplicate-node-ids''
       (Sprintf ''duplicate node ID %q (first defined at line %d)''
          [Quoted (Node_ID node), Decimal firstLine])
       (Node_Line node)"

text \<open>
  What \<open>no-duplicate-node-ids\<close> is to report on a list of nodes: going through the
  positions of the list in order, a node whose id occurs at an earlier position gives one
  finding, which names the line of the first node with that id; a node whose id is new
  gives none.
\<close>

definition duplicate_at :: "Node list \<Rightarrow> nat \<Rightarrow> Finding list" where
  "duplicate_at ns i =
     (case find (\<lambda>m. Node_ID m = Node_ID (ns ! i)) (take i ns) of
        None \<Rightarrow> []
      | Some first \<Rightarrow> [duplicate_finding (ns ! i) (Node_Line first)])"

definition duplicates_of :: "Node list \<Rightarrow> Finding list" where
  "duplicates_of ns = concat (map (duplicate_at ns) [0..<length ns])"

text \<open>The map \<^verbatim>\<open>seen\<close> after the nodes \<open>pre\<close>: the line of the first node with the id.\<close>

definition first_lines :: "Node list \<Rightarrow> (string \<rightharpoonup> int)" where
  "first_lines pre nid = map_option Node_Line (find (\<lambda>m. Node_ID m = nid) pre)"

text \<open>
  What the engine is to make of one rule, read off the configuration itself: nothing if
  the name of the rule has no entry in the rule map or its entry is not enabled, and
  otherwise the findings of the rule, in their order, each with the file name and with
  the severity of the entry.
\<close>

definition stamp :: "string \<Rightarrow> Severity \<Rightarrow> Finding \<Rightarrow> Finding" where
  "stamp filename severity f = f\<lparr>Finding_File := filename, Finding_Severity := severity\<rparr>"

definition rule_findings :: "Config \<Rightarrow> Diagram \<Rightarrow> string \<Rightarrow> Rule \<Rightarrow> Finding list" where
  "rule_findings cfg d filename rule =
     (case Config_Rules cfg (Name rule) of
        None \<Rightarrow> []
      | Some entry \<Rightarrow>
          if RuleConfig_Enabled entry
          then map (stamp filename (RuleConfig_Severity entry)) (Check rule d)
          else [])"

section \<open>Properties of the extraction\<close>


















section \<open>Properties of the parser\<close>

subsection \<open>Every id is registered once\<close>
















section \<open>Properties of the rules\<close>

subsection \<open>node-has-label\<close>

lemma label_loop_filter:
  "label_loop findings ns =
     findings @ map no_label_finding (filter (\<lambda>n. Node_Label n = []) ns)"
  by (induction ns arbitrary: findings) (simp_all add: no_label_finding_def)

text \<open>
  Claim C7. For every source whose parsed diagram is a flowchart or a graph, the
  findings of \<open>node-has-label\<close> are, in order, one finding for each node of the parsed
  diagram whose label is empty, at the line of that node; so there are exactly as many
  findings as nodes with an empty label.
\<close>

theorem node_has_label_count:
  assumes "d = Parse source startLine" and "isFlow d"
  shows "NodeHasLabel_Check d =
           map no_label_finding (filter (\<lambda>n. Node_Label n = []) (Diagram_Nodes d)) \<and>
         length (NodeHasLabel_Check d) =
           length (filter (\<lambda>n. Node_Label n = []) (Diagram_Nodes d)) \<and>
         map Finding_Line (NodeHasLabel_Check d) =
           map Node_Line (filter (\<lambda>n. Node_Label n = []) (Diagram_Nodes d))"
  using assms(2)
  by (simp add: NodeHasLabel_Check_def label_loop_filter no_label_finding_def new_finding_def
        comp_def)

theorem node_has_label_count_witness:
  "isFlow (Parse ''flowchart LR\<newline>  A --> B\<newline>  C[Orphan]'' 1) \<and>
   map Node_Label (Diagram_Nodes (Parse ''flowchart LR\<newline>  A --> B\<newline>  C[Orphan]'' 1)) =
     [[], [], ''Orphan''] \<and>
   length (NodeHasLabel_Check (Parse ''flowchart LR\<newline>  A --> B\<newline>  C[Orphan]'' 1)) = 2 \<and>
   map Finding_Line (NodeHasLabel_Check (Parse ''flowchart LR\<newline>  A --> B\<newline>  C[Orphan]'' 1)) = [2, 2]"
proof -
  let ?d = "Parse ''flowchart LR\<newline>  A --> B\<newline>  C[Orphan]'' 1"
  have h: "isFlow ?d" by code_simp
  have n: "Diagram_Nodes ?d =
             [\<lparr>Node_ID = ''A'', Node_Label = [], Node_Line = 2, Node_Shape = []\<rparr>,
              \<lparr>Node_ID = ''B'', Node_Label = [], Node_Line = 2, Node_Shape = []\<rparr>,
              \<lparr>Node_ID = ''C'', Node_Label = ''Orphan'', Node_Line = 3, Node_Shape = ''rect''\<rparr>]"
    by code_simp
  show ?thesis
    using node_has_label_count [OF refl h] h
    by (simp add: n no_label_finding_def new_finding_def)
qed

subsection \<open>no-orphan-nodes\<close>

lemma connected_loop_iff:
  "connected_loop connected es nid =
     (connected nid \<or> nid \<in> Edge_From ` set es \<or> nid \<in> Edge_To ` set es)"
  by (induction es arbitrary: connected) auto

lemma orphan_loop_filter:
  "orphan_loop connected findings ns =
     findings @ map orphan_finding (filter (\<lambda>n. \<not> connected (Node_ID n)) ns)"
  by (induction ns arbitrary: findings) (simp_all add: orphan_finding_def)

text \<open>
  Claim C8. On a flowchart or graph with no edge, \<open>no-orphan-nodes\<close> returns no finding,
  whatever the nodes are. With at least one edge it returns, in the order of the nodes,
  one finding for each node whose id is neither the source nor the target of an edge, at
  the line of that node.
\<close>

theorem no_orphan_nodes_findings:
  assumes "isFlow d"
  shows "(Diagram_Edges d = [] \<longrightarrow> NoOrphanNodes_Check d = []) \<and>
         (Diagram_Edges d \<noteq> [] \<longrightarrow>
            NoOrphanNodes_Check d =
              map orphan_finding
                (filter (\<lambda>n. Node_ID n \<notin> Edge_From ` set (Diagram_Edges d) \<and>
                              Node_ID n \<notin> Edge_To ` set (Diagram_Edges d))
                   (Diagram_Nodes d)) \<and>
            map Finding_Line (NoOrphanNodes_Check d) =
              map Node_Line
                (filter (\<lambda>n. Node_ID n \<notin> Edge_From ` set (Diagram_Edges d) \<and>
                              Node_ID n \<notin> Edge_To ` set (Diagram_Edges d))
                   (Diagram_Nodes d)))"
  using assms
  by (simp add: NoOrphanNodes_Check_def orphan_loop_filter connected_loop_iff
        orphan_finding_def new_finding_def comp_def)

theorem no_orphan_nodes_findings_witness:
  "NoOrphanNodes_Check
     \<lparr>Diagram_Type = ''graph'', Diagram_TypeRaw = ''graph'', Diagram_Direction = [],
      Diagram_Nodes = [\<lparr>Node_ID = ''A'', Node_Label = [], Node_Line = 2, Node_Shape = []\<rparr>,
                       \<lparr>Node_ID = ''C'', Node_Label = ''Orphan'', Node_Line = 3, Node_Shape = ''rect''\<rparr>],
      Diagram_Edges = [], Diagram_Lines = [], Diagram_StartLine = 1\<rparr> = [] \<and>
   NoOrphanNodes_Check (Parse ''flowchart LR\<newline>  A --> B\<newline>  C[Orphan]'' 1) =
     [orphan_finding \<lparr>Node_ID = ''C'', Node_Label = ''Orphan'', Node_Line = 3, Node_Shape = ''rect''\<rparr>]"
proof -
  let ?g = "\<lparr>Diagram_Type = ''graph'', Diagram_TypeRaw = ''graph'', Diagram_Direction = [],
      Diagram_Nodes = [\<lparr>Node_ID = ''A'', Node_Label = [], Node_Line = 2, Node_Shape = []\<rparr>,
                       \<lparr>Node_ID = ''C'', Node_Label = ''Orphan'', Node_Line = 3, Node_Shape = ''rect''\<rparr>],
      Diagram_Edges = [], Diagram_Lines = [], Diagram_StartLine = 1\<rparr>"
  let ?d = "Parse ''flowchart LR\<newline>  A --> B\<newline>  C[Orphan]'' 1"
  have h0: "isFlow ?g" by code_simp
  have h: "isFlow ?d" by code_simp
  have n: "Diagram_Nodes ?d =
             [\<lparr>Node_ID = ''A'', Node_Label = [], Node_Line = 2, Node_Shape = []\<rparr>,
              \<lparr>Node_ID = ''B'', Node_Label = [], Node_Line = 2, Node_Shape = []\<rparr>,
              \<lparr>Node_ID = ''C'', Node_Label = ''Orphan'', Node_Line = 3, Node_Shape = ''rect''\<rparr>]"
    by code_simp
  have e: "Diagram_Edges ?d =
             [\<lparr>Edge_From = ''A'', Edge_To = ''B'', Edge_Label = [], Edge_Line = 2, Edge_Style = ''-->''\<rparr>]"
    by code_simp
  have a: "NoOrphanNodes_Check ?g = []"
    using no_orphan_nodes_findings [OF h0] by simp
  have b: "NoOrphanNodes_Check ?d =
             [orphan_finding \<lparr>Node_ID = ''C'', Node_Label = ''Orphan'', Node_Line = 3, Node_Shape = ''rect''\<rparr>]"
    using no_orphan_nodes_findings [OF h] by (simp add: n e)
  show ?thesis using a b by (rule conjI)
qed

subsection \<open>no-duplicate-node-ids\<close>

lemma find_snoc:
  "find P (xs @ [x]) = (case find P xs of Some y \<Rightarrow> Some y | None \<Rightarrow> if P x then Some x else None)"
  by (induction xs) simp_all

lemma first_lines_snoc:
  "first_lines (pre @ [n]) =
     (case first_lines pre (Node_ID n) of
        Some l \<Rightarrow> first_lines pre
      | None \<Rightarrow> (first_lines pre)(Node_ID n \<mapsto> Node_Line n))"
proof (cases "find (\<lambda>m. Node_ID m = Node_ID n) pre")
  case None
  show ?thesis
  proof
    fix nid
    show "first_lines (pre @ [n]) nid =
            (case first_lines pre (Node_ID n) of
               Some l \<Rightarrow> first_lines pre
             | None \<Rightarrow> (first_lines pre)(Node_ID n \<mapsto> Node_Line n)) nid"
      using None by (cases "find (\<lambda>m. Node_ID m = nid) pre") (auto simp: first_lines_def find_snoc)
  qed
next
  case (Some y)
  show ?thesis
  proof
    fix nid
    show "first_lines (pre @ [n]) nid =
            (case first_lines pre (Node_ID n) of
               Some l \<Rightarrow> first_lines pre
             | None \<Rightarrow> (first_lines pre)(Node_ID n \<mapsto> Node_Line n)) nid"
      using Some by (cases "find (\<lambda>m. Node_ID m = nid) pre") (auto simp: first_lines_def find_snoc)
  qed
qed

lemma duplicate_at_here:
  "duplicate_at (pre @ n # ns) (length pre) =
     (case first_lines pre (Node_ID n) of
        None \<Rightarrow> []
      | Some l \<Rightarrow> [duplicate_finding n l])"
  by (simp add: duplicate_at_def first_lines_def split: option.splits)

lemma duplicates_after_Cons:
  "concat (map (\<lambda>i. duplicate_at (pre @ n # ns) (length pre + i)) [0..<length (n # ns)]) =
     duplicate_at (pre @ n # ns) (length pre) @
     concat (map (\<lambda>i. duplicate_at ((pre @ [n]) @ ns) (length (pre @ [n]) + i)) [0..<length ns])"
  by (simp add: upt_conv_Cons map_Suc_upt [symmetric] comp_def del: upt_Suc)

lemma duplicate_loop_after:
  "duplicate_loop (first_lines pre) findings ns =
     findings @ concat (map (\<lambda>i. duplicate_at (pre @ ns) (length pre + i)) [0..<length ns])"
proof (induction ns arbitrary: pre findings)
  case Nil
  then show ?case by simp
next
  case (Cons n ns)
  let ?rest = "concat (map (\<lambda>i. duplicate_at ((pre @ [n]) @ ns) (length (pre @ [n]) + i)) [0..<length ns])"
  show ?case
  proof (cases "first_lines pre (Node_ID n)")
    case None
    then have m: "first_lines (pre @ [n]) = (first_lines pre)(Node_ID n \<mapsto> Node_Line n)"
      by (simp add: first_lines_snoc)
    have "duplicate_loop (first_lines pre) findings (n # ns) =
            duplicate_loop (first_lines (pre @ [n])) findings ns"
      using None by (simp add: m)
    also have "\<dots> = findings @ ?rest"
      by (rule Cons.IH)
    also have "\<dots> = findings @ duplicate_at (pre @ n # ns) (length pre) @ ?rest"
      using None by (simp only: duplicate_at_here option.case append_Nil)
    finally show ?thesis
      by (simp only: duplicates_after_Cons)
  next
    case (Some l)
    then have m: "first_lines (pre @ [n]) = first_lines pre"
      by (simp add: first_lines_snoc)
    have "duplicate_loop (first_lines pre) findings (n # ns) =
            duplicate_loop (first_lines (pre @ [n])) (findings @ [duplicate_finding n l]) ns"
      using Some by (simp add: m duplicate_finding_def)
    also have "\<dots> = (findings @ [duplicate_finding n l]) @ ?rest"
      by (rule Cons.IH)
    also have "\<dots> = findings @ duplicate_at (pre @ n # ns) (length pre) @ ?rest"
      using Some by (simp only: duplicate_at_here option.case append_assoc)
    finally show ?thesis
      by (simp only: duplicates_after_Cons)
  qed
qed

lemma duplicate_loop_duplicates_of:
  "duplicate_loop Map.empty [] ns = duplicates_of ns"
proof -
  have "first_lines [] = Map.empty"
    by (rule ext) (simp add: first_lines_def)
  then show ?thesis
    using duplicate_loop_after [of "[]" "[]" ns] by (simp add: duplicates_of_def)
qed

subsection \<open>The engine\<close>

lemma stamp_loop_map:
  "stamp_loop filename severity findings fs = findings @ map (stamp filename severity) fs"
  by (induction fs arbitrary: findings) (simp_all add: stamp_def)

lemma rules_loop_concat:
  "rules_loop cfg d filename findings rules =
     findings @ concat (map (rule_findings cfg d filename) rules)"
  by (induction rules arbitrary: findings)
     (simp_all add: rule_findings_def stamp_loop_map IsRuleEnabled_def RuleSeverity_def
        split: option.splits)

lemma lintDiagram_concat:
  "lintDiagram (New cfg) d filename = concat (map (rule_findings cfg d filename) AllRules)"
  by (simp add: lintDiagram_def New_def rules_loop_concat)

lemma duplicates_of_rule:
  "f \<in> set (duplicates_of ns) \<Longrightarrow> Finding_Rule f = ''no-duplicate-node-ids''"
  by (auto simp: duplicates_of_def duplicate_at_def duplicate_finding_def new_finding_def
      split: option.splits)

lemma Check_rule:
  assumes "f \<in> set (Check rule d)"
  shows "Finding_Rule f = Name rule"
proof (cases rule)
  case NoUnknownDiagramType
  with assms show ?thesis
    by (auto simp: NoUnknownDiagramType_Check_def new_finding_def split: if_splits)
next
  case NoEmptyDiagram
  with assms show ?thesis
    by (auto simp: NoEmptyDiagram_Check_def new_finding_def split: if_splits)
next
  case ValidDirection
  with assms show ?thesis
    by (auto simp: ValidDirection_Check_def Let_def new_finding_def split: if_splits)
next
  case NoDuplicateNodeIDs
  with assms show ?thesis
    by (auto simp: NoDuplicateNodeIDs_Check_def duplicate_loop_duplicates_of
        dest: duplicates_of_rule split: if_splits)
next
  case NodeHasLabel
  with assms show ?thesis
    by (auto simp: NodeHasLabel_Check_def label_loop_filter no_label_finding_def new_finding_def
        split: if_splits)
next
  case NoOrphanNodes
  with assms show ?thesis
    by (auto simp: NoOrphanNodes_Check_def orphan_loop_filter orphan_finding_def new_finding_def
        split: if_splits)
qed

lemma rule_findings_stamped:
  assumes "f \<in> set (rule_findings cfg d filename rule)"
  shows "Finding_Rule f = Name rule \<and> Finding_File f = filename \<and>
         (\<exists>entry. Config_Rules cfg (Name rule) = Some entry \<and> RuleConfig_Enabled entry \<and>
                  Finding_Severity f = RuleConfig_Severity entry)"
proof -
  from assms obtain entry where entry: "Config_Rules cfg (Name rule) = Some entry"
    and en: "RuleConfig_Enabled entry"
    by (cases "Config_Rules cfg (Name rule)") (auto simp: rule_findings_def split: if_splits)
  with assms obtain g where g: "g \<in> set (Check rule d)"
    and f: "f = stamp filename (RuleConfig_Severity entry) g"
    by (auto simp: rule_findings_def)
  from g have "Finding_Rule g = Name rule" by (rule Check_rule)
  with entry en f show ?thesis by (simp add: stamp_def)
qed

text \<open>
  Claim C6. For every diagram, configuration and file name, the result of the engine is
  the concatenation, over the six rules in the order of the registry, of what each rule
  contributes. A rule whose name has no entry in the rule map of the configuration
  contributes nothing, and so does a rule whose entry is not enabled. A rule whose entry
  is enabled contributes its findings in the order the rule made them, each with the
  file name and with the severity of the entry. So every finding of the result carries
  the file name and the severity of the enabled entry of its rule. The two queries of
  the configuration read the entry of a name: its enabled flag and its severity, and
  for a name with no entry not enabled and warning.
\<close>

theorem lintDiagram_registry_order:
  "lintDiagram (New cfg) d filename =
     concat (map (rule_findings cfg d filename)
       [NoUnknownDiagramType, NoEmptyDiagram, ValidDirection, NoDuplicateNodeIDs,
        NodeHasLabel, NoOrphanNodes]) \<and>
   (\<forall>rule. Config_Rules cfg (Name rule) = None \<longrightarrow> rule_findings cfg d filename rule = []) \<and>
   (\<forall>rule entry. Config_Rules cfg (Name rule) = Some entry \<and> \<not> RuleConfig_Enabled entry \<longrightarrow>
      rule_findings cfg d filename rule = []) \<and>
   (\<forall>rule entry. Config_Rules cfg (Name rule) = Some entry \<and> RuleConfig_Enabled entry \<longrightarrow>
      rule_findings cfg d filename rule =
        map (\<lambda>f. f\<lparr>Finding_File := filename,
                    Finding_Severity := RuleConfig_Severity entry\<rparr>) (Check rule d)) \<and>
   (\<forall>f \<in> set (lintDiagram (New cfg) d filename).
      Finding_File f = filename \<and>
      (\<exists>entry. Config_Rules cfg (Finding_Rule f) = Some entry \<and> RuleConfig_Enabled entry \<and>
               Finding_Severity f = RuleConfig_Severity entry)) \<and>
   (\<forall>name. Config_Rules cfg name = None \<longrightarrow>
      \<not> IsRuleEnabled cfg name \<and> RuleSeverity cfg name = SeverityWarning) \<and>
   (\<forall>name entry. Config_Rules cfg name = Some entry \<longrightarrow>
      IsRuleEnabled cfg name = RuleConfig_Enabled entry \<and>
      RuleSeverity cfg name = RuleConfig_Severity entry)"
proof (intro conjI)
  show "lintDiagram (New cfg) d filename =
          concat (map (rule_findings cfg d filename)
            [NoUnknownDiagramType, NoEmptyDiagram, ValidDirection, NoDuplicateNodeIDs,
             NodeHasLabel, NoOrphanNodes])"
    by (simp only: lintDiagram_concat AllRules_def)
  show "\<forall>rule. Config_Rules cfg (Name rule) = None \<longrightarrow> rule_findings cfg d filename rule = []"
    by (simp add: rule_findings_def)
  show "\<forall>rule entry. Config_Rules cfg (Name rule) = Some entry \<and> \<not> RuleConfig_Enabled entry \<longrightarrow>
          rule_findings cfg d filename rule = []"
    by (simp add: rule_findings_def)
  show "\<forall>rule entry. Config_Rules cfg (Name rule) = Some entry \<and> RuleConfig_Enabled entry \<longrightarrow>
          rule_findings cfg d filename rule =
            map (\<lambda>f. f\<lparr>Finding_File := filename,
                        Finding_Severity := RuleConfig_Severity entry\<rparr>) (Check rule d)"
    by (simp add: rule_findings_def stamp_def)
  show "\<forall>f \<in> set (lintDiagram (New cfg) d filename).
          Finding_File f = filename \<and>
          (\<exists>entry. Config_Rules cfg (Finding_Rule f) = Some entry \<and> RuleConfig_Enabled entry \<and>
                   Finding_Severity f = RuleConfig_Severity entry)"
  proof
    fix f assume "f \<in> set (lintDiagram (New cfg) d filename)"
    then obtain rule where "f \<in> set (rule_findings cfg d filename rule)"
      by (auto simp: lintDiagram_concat)
    from rule_findings_stamped [OF this]
    show "Finding_File f = filename \<and>
          (\<exists>entry. Config_Rules cfg (Finding_Rule f) = Some entry \<and> RuleConfig_Enabled entry \<and>
                   Finding_Severity f = RuleConfig_Severity entry)"
      by simp
  qed
  show "\<forall>name. Config_Rules cfg name = None \<longrightarrow>
          \<not> IsRuleEnabled cfg name \<and> RuleSeverity cfg name = SeverityWarning"
    by (simp add: IsRuleEnabled_def RuleSeverity_def)
  show "\<forall>name entry. Config_Rules cfg name = Some entry \<longrightarrow>
          IsRuleEnabled cfg name = RuleConfig_Enabled entry \<and>
          RuleSeverity cfg name = RuleConfig_Severity entry"
    by (simp add: IsRuleEnabled_def RuleSeverity_def)
qed

theorem lintDiagram_registry_order_witness:
  "lintDiagram
     (New \<lparr>Config_Rules = map_of
        [(''no-unknown-diagram-type'', \<lparr>RuleConfig_Enabled = True, RuleConfig_Severity = SeverityError\<rparr>),
         (''valid-direction'', \<lparr>RuleConfig_Enabled = True, RuleConfig_Severity = SeverityInfo\<rparr>),
         (''no-orphan-nodes'', \<lparr>RuleConfig_Enabled = False, RuleConfig_Severity = SeverityWarning\<rparr>)]\<rparr>)
     (Parse ''flowchart XX\<newline>  A --> B\<newline>  C[Orphan]'' 1) ''test.mmd'' =
   [\<lparr>Finding_Rule = ''valid-direction'', Finding_Severity = ''info'',
      Finding_Message =
        Sprintf ''invalid flowchart direction %q; must be one of TB, TD, BT, LR, RL'' [Quoted ''XX''],
      Finding_File = ''test.mmd'', Finding_Line = 1\<rparr>]"
proof -
  let ?cfg = "\<lparr>Config_Rules = map_of
        [(''no-unknown-diagram-type'', \<lparr>RuleConfig_Enabled = True, RuleConfig_Severity = SeverityError\<rparr>),
         (''valid-direction'', \<lparr>RuleConfig_Enabled = True, RuleConfig_Severity = SeverityInfo\<rparr>),
         (''no-orphan-nodes'', \<lparr>RuleConfig_Enabled = False, RuleConfig_Severity = SeverityWarning\<rparr>)]\<rparr>"
  let ?p = "Parse ''flowchart XX\<newline>  A --> B\<newline>  C[Orphan]'' 1"
  have e: "concat (map (rule_findings ?cfg ?p ''test.mmd'')
             [NoUnknownDiagramType, NoEmptyDiagram, ValidDirection, NoDuplicateNodeIDs,
              NodeHasLabel, NoOrphanNodes]) =
           [\<lparr>Finding_Rule = ''valid-direction'', Finding_Severity = ''info'',
              Finding_Message =
                Sprintf ''invalid flowchart direction %q; must be one of TB, TD, BT, LR, RL'' [Quoted ''XX''],
              Finding_File = ''test.mmd'', Finding_Line = 1\<rparr>]"
    by code_simp
  from lintDiagram_registry_order [of ?cfg ?p "''test.mmd''"]
  have "lintDiagram (New ?cfg) ?p ''test.mmd'' =
          concat (map (rule_findings ?cfg ?p ''test.mmd'')
            [NoUnknownDiagramType, NoEmptyDiagram, ValidDirection, NoDuplicateNodeIDs,
             NodeHasLabel, NoOrphanNodes])"
    by (rule conjunct1)
  then show ?thesis
    by (simp only: e)
qed

subsection \<open>Duplicate ids\<close>

lemma NoDuplicateNodeIDs_Check_duplicates_of:
  "isFlow d \<Longrightarrow> NoDuplicateNodeIDs_Check d = duplicates_of (Diagram_Nodes d)"
  by (simp add: NoDuplicateNodeIDs_Check_def duplicate_loop_duplicates_of)

text \<open>
  Claim C1 does not hold of the code. The source below defines the node \<open>A\<close> on line 2
  and defines it again on line 3. The parser registers the id once and drops the second
  definition, so the diagram has one node, the check of \<open>no-duplicate-node-ids\<close> finds
  nothing, and the linter under the default configuration, where the rule is enabled,
  reports no duplicate. On the list of the two definitions the check would report the
  second one, at line 3, with the line 2 of the first in its message.
\<close>

theorem duplicate_definition_unreported:
  "Diagram_Nodes (Parse ''flowchart LR\<newline>  A[One]\<newline>  A[Two]'' 1) =
     [\<lparr>Node_ID = ''A'', Node_Label = ''One'', Node_Line = 2, Node_Shape = ''rect''\<rparr>] \<and>
   NoDuplicateNodeIDs_Check (Parse ''flowchart LR\<newline>  A[One]\<newline>  A[Two]'' 1) = [] \<and>
   filter (\<lambda>f. Finding_Rule f = ''no-duplicate-node-ids'')
     (LintSource (New DefaultConfig) ''flowchart LR\<newline>  A[One]\<newline>  A[Two]'' ''test.mmd'') = [] \<and>
   IsRuleEnabled DefaultConfig ''no-duplicate-node-ids'' \<and>
   NoDuplicateNodeIDs_Check
     \<lparr>Diagram_Type = ''flowchart'', Diagram_TypeRaw = ''flowchart'', Diagram_Direction = ''LR'',
      Diagram_Nodes = [\<lparr>Node_ID = ''A'', Node_Label = ''One'', Node_Line = 2, Node_Shape = ''rect''\<rparr>,
                       \<lparr>Node_ID = ''A'', Node_Label = ''Two'', Node_Line = 3, Node_Shape = ''rect''\<rparr>],
      Diagram_Edges = [], Diagram_Lines = [''flowchart LR'', ''  A[One]'', ''  A[Two]''],
      Diagram_StartLine = 1\<rparr> =
     [\<lparr>Finding_Rule = ''no-duplicate-node-ids'', Finding_Severity = [],
        Finding_Message =
          Sprintf ''duplicate node ID %q (first defined at line %d)'' [Quoted ''A'', Decimal 2],
        Finding_File = [], Finding_Line = 3\<rparr>]"
  by code_simp

subsection \<open>An invalid direction\<close>

text \<open>
  Claim C9. Linting the source \<open>flowchart XX\<close>, \<open>  A --> B\<close> under the default
  configuration gives exactly one finding of \<open>valid-direction\<close>, with severity error,
  and no finding of \<open>no-unknown-diagram-type\<close>.
\<close>

theorem invalid_direction_scenario:
  "filter (\<lambda>f. Finding_Rule f = ''valid-direction'')
     (LintSource (New DefaultConfig) ''flowchart XX\<newline>  A --> B'' ''test.mmd'') =
     [\<lparr>Finding_Rule = ''valid-direction'', Finding_Severity = ''error'',
        Finding_Message =
          Sprintf ''invalid flowchart direction %q; must be one of TB, TD, BT, LR, RL'' [Quoted ''XX''],
        Finding_File = ''test.mmd'', Finding_Line = 1\<rparr>] \<and>
   filter (\<lambda>f. Finding_Rule f = ''no-unknown-diagram-type'')
     (LintSource (New DefaultConfig) ''flowchart XX\<newline>  A --> B'' ''test.mmd'') = [] \<and>
   ToUpper ''XX'' \<notin> set [''TB'', ''TD'', ''BT'', ''LR'', ''RL'']"
  by code_simp

subsection \<open>The shapes of the definitions\<close>

text \<open>
  Claim C3 does not hold of the code. The alternatives of the pattern are tried from
  left to right, and the single-bracket alternatives come first: on \<open>A[[Sub]]\<close> the
  rectangle alternative matches \<open>[[Sub]\<close>, on \<open>A((C))\<close> and \<open>A([S])\<close> the round
  alternative matches. The nodes get these shapes and labels, not subroutine, circle and
  stadium.
\<close>

theorem double_delimiter_shapes:
  "Diagram_Nodes (Parse ''flowchart LR\<newline>  A[[Sub]]\<newline>  B((C))\<newline>  D([S])'' 1) =
     [\<lparr>Node_ID = ''A'', Node_Label = ''[Sub'', Node_Line = 2, Node_Shape = ''rect''\<rparr>,
      \<lparr>Node_ID = ''B'', Node_Label = ''(C'', Node_Line = 3, Node_Shape = ''round''\<rparr>,
      \<lparr>Node_ID = ''D'', Node_Label = ''[S]'', Node_Line = 4, Node_Shape = ''round''\<rparr>] \<and>
   FindAllStringSubmatch nodeDefPattern 11 ''A[[Sub]]'' =
     [[''A[[Sub]'', ''A'', ''[Sub'', [], [], [], [], [], [], [], [], []]]"
  by code_simp

subsection \<open>Definitions of nodes: creation and backfill\<close>

lemma update_node_none:
  "\<forall>n \<in> set ns. Node_ID n = nid \<longrightarrow> Node_Label n \<noteq> [] \<Longrightarrow>
   update_node nid label shape ns = ns"
  by (induction ns) auto

lemma update_node_at:
  "distinct (map Node_ID ns) \<Longrightarrow> k < length ns \<Longrightarrow> Node_ID (ns ! k) = nid \<Longrightarrow>
   Node_Label (ns ! k) = [] \<Longrightarrow>
   update_node nid label shape ns = ns[k := (ns ! k)\<lparr>Node_Label := label, Node_Shape := shape\<rparr>]"
proof (induction ns arbitrary: k)
  case Nil
  then show ?case by simp
next
  case (Cons n ns)
  show ?case
  proof (cases k)
    case 0
    with Cons.prems show ?thesis by simp
  next
    case (Suc j)
    with Cons.prems have "Node_ID (ns ! j) = nid" and "j < length ns" by simp_all
    then have "nid \<in> set (map Node_ID ns)" by (metis length_map nth_map nth_mem)
    with Cons.prems(1) have "Node_ID n \<noteq> nid" by auto
    with Suc Cons show ?thesis by simp
  qed
qed

lemma node_step_define:
  "match ! 1 \<noteq> [] \<Longrightarrow> label_shape 2 (drop 2 match) = (label, shape) \<Longrightarrow>
   node_step lineNum st match = define_node lineNum (match ! 1) label shape st"
  by (simp add: node_step_def)

lemma backfilled_labelled:
  assumes "distinct (map Node_ID ns)" and "k < length ns" and "label \<noteq> []"
    and "n \<in> set (ns[k := (ns ! k)\<lparr>Node_Label := label, Node_Shape := shape\<rparr>])"
    and "Node_ID n = Node_ID (ns ! k)"
  shows "Node_Label n \<noteq> []"
proof -
  let ?ns = "ns[k := (ns ! k)\<lparr>Node_Label := label, Node_Shape := shape\<rparr>]"
  from assms(4) obtain j where j: "j < length ns" "n = ?ns ! j"
    by (auto simp: in_set_conv_nth)
  have ids: "map Node_ID ?ns = map Node_ID ns"
    using assms(2) by (simp add: map_update list_update_same_conv)
  have "Node_ID (ns ! j) = Node_ID (?ns ! j)"
    using j(1) ids by (metis length_list_update nth_map)
  with assms(5) j have "Node_ID (ns ! j) = Node_ID (ns ! k)" by simp
  with assms(1,2) j(1) have "j = k"
    by (metis distinct_conv_nth length_map nth_map)
  with j assms(2,3) show ?thesis by simp
qed

text \<open>
  Claim C4, as it is stated, fails for a definition whose label is empty. The definition
  \<open>B{}\<close> has the empty label and the shape \<open>default\<close>, and a new id defined so gets
  that shape. But when \<open>B\<close> is already registered with an empty label (from the edge on
  line 2), the definition leaves the node as it is: its shape stays empty, it is not
  backfilled.
\<close>

theorem empty_definition_counterexample:
  "label_shape 2 (drop 2 (FindAllStringSubmatch nodeDefPattern 11 ''B{}'' ! 0)) = ([], ''default'') \<and>
   Diagram_Nodes (Parse ''flowchart LR\<newline>  B{}'' 1) =
     [\<lparr>Node_ID = ''B'', Node_Label = [], Node_Line = 2, Node_Shape = ''default''\<rparr>] \<and>
   Diagram_Nodes (Parse ''flowchart LR\<newline>  A --> B'' 1) ! 1 =
     \<lparr>Node_ID = ''B'', Node_Label = [], Node_Line = 2, Node_Shape = []\<rparr> \<and>
   Diagram_Nodes (Parse ''flowchart LR\<newline>  A --> B\<newline>  B{}'' 1) ! 1 =
     \<lparr>Node_ID = ''B'', Node_Label = [], Node_Line = 2, Node_Shape = []\<rparr> \<and>
   Node_Shape (Diagram_Nodes (Parse ''flowchart LR\<newline>  A --> B\<newline>  B{}'' 1) ! 1) \<noteq> ''default''"
  by code_simp

text \<open>
  Claim C4, amended. In a state of the parse (every id registered once), a definition
  of the id \<open>nid\<close> with label \<open>label\<close> and shape \<open>shape\<close>, found on line \<open>lineNum\<close>:
  \<^item> if the id is new, a node with this label, shape and line is appended and the id is
    marked as seen;
  \<^item> if the node of the id has an empty label and the label of the definition is not
    empty, that node gets the label and the shape, nothing else changes, and any later
    definition of the id leaves the state as it is (the backfill happens once);
  \<^item> if the id is registered and the label of the definition is empty, nothing changes;
  \<^item> if the node of the id has a label that is not empty, nothing changes.
\<close>

theorem node_definition_backfill:
  assumes "registered_once (d, seenNodes)"
    and "match ! 1 = nid" and "nid \<noteq> []"
    and "label_shape 2 (drop 2 match) = (label, shape)"
  shows "(\<not> seenNodes nid \<longrightarrow>
            node_step lineNum (d, seenNodes) match =
              (d\<lparr>Diagram_Nodes := Diagram_Nodes d @
                   [\<lparr>Node_ID = nid, Node_Label = label, Node_Line = lineNum, Node_Shape = shape\<rparr>]\<rparr>,
               seenNodes(nid := True))) \<and>
         (\<forall>k < length (Diagram_Nodes d).
            Node_ID (Diagram_Nodes d ! k) = nid \<and> Node_Label (Diagram_Nodes d ! k) = [] \<and> label \<noteq> [] \<longrightarrow>
            node_step lineNum (d, seenNodes) match =
              (d\<lparr>Diagram_Nodes := (Diagram_Nodes d)
                   [k := (Diagram_Nodes d ! k)\<lparr>Node_Label := label, Node_Shape := shape\<rparr>]\<rparr>,
               seenNodes) \<and>
            (\<forall>lineNum' match'. match' ! 1 = nid \<longrightarrow>
               node_step lineNum' (node_step lineNum (d, seenNodes) match) match' =
                 node_step lineNum (d, seenNodes) match)) \<and>
         (seenNodes nid \<and> label = [] \<longrightarrow> node_step lineNum (d, seenNodes) match = (d, seenNodes)) \<and>
         (seenNodes nid \<and> (\<forall>n \<in> set (Diagram_Nodes d). Node_ID n = nid \<longrightarrow> Node_Label n \<noteq> []) \<longrightarrow>
            node_step lineNum (d, seenNodes) match = (d, seenNodes))"
proof -
  have step: "node_step lineNum (d, seenNodes) match = define_node lineNum nid label shape (d, seenNodes)"
    using assms(2,3,4) by (simp add: node_step_define)
  have dist: "distinct (map Node_ID (Diagram_Nodes d))"
    and seen: "\<And>x. seenNodes x = (x \<in> set (map Node_ID (Diagram_Nodes d)))"
    using assms(1) by (simp_all add: registered_once_def)
  have new: "\<not> seenNodes nid \<longrightarrow>
            node_step lineNum (d, seenNodes) match =
              (d\<lparr>Diagram_Nodes := Diagram_Nodes d @
                   [\<lparr>Node_ID = nid, Node_Label = label, Node_Line = lineNum, Node_Shape = shape\<rparr>]\<rparr>,
               seenNodes(nid := True))"
    by (simp add: step define_node_def)
  have empty: "seenNodes nid \<and> label = [] \<longrightarrow> node_step lineNum (d, seenNodes) match = (d, seenNodes)"
    by (simp add: step define_node_def)
  have labelled: "seenNodes nid \<and> (\<forall>n \<in> set (Diagram_Nodes d). Node_ID n = nid \<longrightarrow> Node_Label n \<noteq> []) \<longrightarrow>
            node_step lineNum (d, seenNodes) match = (d, seenNodes)"
    by (simp add: step define_node_def update_node_none)
  have fill: "node_step lineNum (d, seenNodes) match =
              (d\<lparr>Diagram_Nodes := (Diagram_Nodes d)
                   [k := (Diagram_Nodes d ! k)\<lparr>Node_Label := label, Node_Shape := shape\<rparr>]\<rparr>,
               seenNodes) \<and>
            (\<forall>lineNum' match'. match' ! 1 = nid \<longrightarrow>
               node_step lineNum' (node_step lineNum (d, seenNodes) match) match' =
                 node_step lineNum (d, seenNodes) match)"
    if k: "k < length (Diagram_Nodes d)" and kid: "Node_ID (Diagram_Nodes d ! k) = nid"
      and kl: "Node_Label (Diagram_Nodes d ! k) = []" and l: "label \<noteq> []" for k
  proof -
    let ?ns = "(Diagram_Nodes d)[k := (Diagram_Nodes d ! k)\<lparr>Node_Label := label, Node_Shape := shape\<rparr>]"
    have s: "seenNodes nid"
      using k kid seen by (metis length_map nth_map nth_mem)
    have a: "node_step lineNum (d, seenNodes) match = (d\<lparr>Diagram_Nodes := ?ns\<rparr>, seenNodes)"
      using s l by (simp add: step define_node_def update_node_at [OF dist k kid kl])
    have all: "\<forall>n \<in> set ?ns. Node_ID n = nid \<longrightarrow> Node_Label n \<noteq> []"
    proof (intro ballI impI)
      fix n assume "n \<in> set ?ns" and "Node_ID n = nid"
      then show "Node_Label n \<noteq> []"
        using backfilled_labelled [OF dist k l, of n shape] kid by simp
    qed
    have "node_step lineNum' (d\<lparr>Diagram_Nodes := ?ns\<rparr>, seenNodes) match' =
            (d\<lparr>Diagram_Nodes := ?ns\<rparr>, seenNodes)"
      if "match' ! 1 = nid" for lineNum' match'
      using that s assms(3) all
      by (simp add: node_step_def define_node_def update_node_none split: prod.splits)
    with a show ?thesis by simp
  qed
  from new fill empty labelled show ?thesis by blast
qed

theorem node_definition_backfill_witness:
  "node_step 3
     (\<lparr>Diagram_Type = ''flowchart'', Diagram_TypeRaw = ''flowchart'', Diagram_Direction = ''LR'',
        Diagram_Nodes = [\<lparr>Node_ID = ''A'', Node_Label = [], Node_Line = 2, Node_Shape = []\<rparr>,
                         \<lparr>Node_ID = ''B'', Node_Label = [], Node_Line = 2, Node_Shape = []\<rparr>],
        Diagram_Edges = [], Diagram_Lines = [], Diagram_StartLine = 1\<rparr>,
      (\<lambda>nid. nid = ''A'' \<or> nid = ''B''))
     [''B[End]'', ''B'', ''End'', [], [], [], [], [], [], [], [], []] =
   (\<lparr>Diagram_Type = ''flowchart'', Diagram_TypeRaw = ''flowchart'', Diagram_Direction = ''LR'',
      Diagram_Nodes = [\<lparr>Node_ID = ''A'', Node_Label = [], Node_Line = 2, Node_Shape = []\<rparr>,
                       \<lparr>Node_ID = ''B'', Node_Label = ''End'', Node_Line = 2, Node_Shape = ''rect''\<rparr>],
      Diagram_Edges = [], Diagram_Lines = [], Diagram_StartLine = 1\<rparr>,
    (\<lambda>nid. nid = ''A'' \<or> nid = ''B''))"
proof -
  let ?g = "\<lparr>Diagram_Type = ''flowchart'', Diagram_TypeRaw = ''flowchart'', Diagram_Direction = ''LR'',
        Diagram_Nodes = [\<lparr>Node_ID = ''A'', Node_Label = [], Node_Line = 2, Node_Shape = []\<rparr>,
                         \<lparr>Node_ID = ''B'', Node_Label = [], Node_Line = 2, Node_Shape = []\<rparr>],
        Diagram_Edges = [], Diagram_Lines = [], Diagram_StartLine = 1\<rparr>"
  let ?m = "[''B[End]'', ''B'', ''End'', [], [], [], [], [], [], [], [], []]"
  have h1: "registered_once (?g, (\<lambda>nid. nid = ''A'' \<or> nid = ''B''))"
    by (simp add: registered_once_def)
  have h2: "?m ! 1 = ''B''" by simp
  have h3: "''B'' \<noteq> []" by simp
  have h4: "label_shape 2 (drop 2 ?m) = (''End'', ''rect'')" by code_simp
  from node_definition_backfill [OF h1 h2 h3 h4, of 3]
  have "\<forall>k < length (Diagram_Nodes ?g).
          Node_ID (Diagram_Nodes ?g ! k) = ''B'' \<and> Node_Label (Diagram_Nodes ?g ! k) = [] \<and> ''End'' \<noteq> [] \<longrightarrow>
          node_step 3 (?g, (\<lambda>nid. nid = ''A'' \<or> nid = ''B'')) ?m =
            (?g\<lparr>Diagram_Nodes := (Diagram_Nodes ?g)
                 [k := (Diagram_Nodes ?g ! k)\<lparr>Node_Label := ''End'', Node_Shape := ''rect''\<rparr>]\<rparr>,
             (\<lambda>nid. nid = ''A'' \<or> nid = ''B''))"
    by blast
  from this [rule_format, of 1] show ?thesis by simp
qed

end
